theory Spec2Isabelle
  imports Complex_Main
begin

section \<open>The points tracker of app/main.py\<close>

text \<open>
  The program is one Python module: a process-wide dictionary \<open>user_states\<close>, a storage
  bucket holding one JSON file per user, and three HTTP handlers over them. The model
  passes the state explicitly: every function that mutates \<open>user_states\<close> or the bucket
  takes the \<open>world\<close> and returns the new one. What the module reads from outside (the
  clock, the environment variable with the secret, the storage service, the library
  functions for HMAC, UTF-8 and JSON text) is a record \<open>env\<close> handed to every function.

  Conventions:
  \<^item> a Python \<open>str\<close> and a \<open>bytes\<close> are a \<open>string\<close> (the UTF-8 bytes);
  \<^item> a value that came out of \<open>json.loads\<close> is a \<open>pyval\<close>; numbers are rationals, so
    the int \<open>2\<close> and the float \<open>2.0\<close> are one value, and float rounding and the floats
    \<open>nan\<close> and \<open>inf\<close> are not modelled (the amounts 1, 2, 2.5 and 0 and their sums are
    exact in both);
  \<^item> a dictionary that came out of JSON is the list of its items (keys distinct);
  \<^item> an exception that leaves a handler is a value \<open>Inl\<close> of the result;
  \<^item> user ids are strings, as the annotations \<open>user_id: str\<close> of the module say;
  \<^item> one call sees one clock value: \<open>utc_month\<close> is what every
    \<open>get_current_month()\<close> of the call returns.
\<close>

subsection \<open>Python values\<close>

datatype pyval =
    PNone
  | PBool bool
  | PNum rat
  | PStr string
  | PList "pyval list"
  | PDict "(string \<times> pyval) list"

datatype exn =
    KeyError | TypeError | AttributeError | JSONDecodeError | StorageError

text \<open>\<open>not v\<close> is \<open>\<not> truthy v\<close>.\<close>

fun truthy :: "pyval \<Rightarrow> bool" where
  "truthy PNone = False"
| "truthy (PBool b) = b"
| "truthy (PNum r) = (r \<noteq> 0)"
| "truthy (PStr s) = (s \<noteq> [])"
| "truthy (PList xs) = (xs \<noteq> [])"
| "truthy (PDict kvs) = (kvs \<noteq> [])"

text \<open>\<open>d.get(k, default)\<close> on a dictionary.\<close>

definition dict_get :: "(string \<times> pyval) list \<Rightarrow> string \<Rightarrow> pyval \<Rightarrow> pyval" where
  "dict_get d k dflt = (case map_of d k of None \<Rightarrow> dflt | Some v \<Rightarrow> v)"

text \<open>\<open>v.get(k, default)\<close> on any value: only a dictionary has the method.\<close>

fun py_get :: "pyval \<Rightarrow> string \<Rightarrow> pyval \<Rightarrow> exn + pyval" where
  "py_get (PDict d) k dflt = Inr (dict_get d k dflt)"
| "py_get _ k dflt = Inl AttributeError"

text \<open>\<open>v[k]\<close> with a string key.\<close>

fun py_item :: "pyval \<Rightarrow> string \<Rightarrow> exn + pyval" where
  "py_item (PDict d) k = (case map_of d k of None \<Rightarrow> Inl KeyError | Some v \<Rightarrow> Inr v)"
| "py_item _ k = Inl TypeError"

text \<open>\<open>v + amount\<close> for a number \<open>amount\<close>; \<open>True\<close> and \<open>False\<close> count as 1 and 0.\<close>

fun py_add :: "pyval \<Rightarrow> rat \<Rightarrow> exn + pyval" where
  "py_add (PNum r) a = Inr (PNum (r + a))"
| "py_add (PBool b) a = Inr (PNum ((if b then 1 else 0) + a))"
| "py_add _ a = Inl TypeError"

subsection \<open>State and environment\<close>

record user_state =
  plus_points :: pyval
  month :: pyval

record world =
  user_states :: "string \<rightharpoonup> user_state"
  bucket :: "string \<rightharpoonup> string"

record env =
  EVENTSUB_SECRET :: string
  utc_month :: string
  fetch_ok :: bool
  store_ok :: bool
  hmac_sha256_hex :: "string \<Rightarrow> string \<Rightarrow> string"
  utf8_decode :: "string \<Rightarrow> string option"
  json_loads :: "string \<Rightarrow> pyval option"
  json_dumps :: "pyval \<Rightarrow> string"

text \<open>
  \<open>fetch_ok\<close> and \<open>store_ok\<close> say whether the storage calls of \<open>load_user_state\<close> and of
  \<open>save_user_state\<close> go through during this call; \<open>utf8_decode\<close> and \<open>json_loads\<close> return
  \<open>None\<close> where \<open>bytes.decode\<close> and \<open>json.loads\<close> raise.
\<close>

definition get_current_month :: "env \<Rightarrow> string" where
  "get_current_month e = utc_month e"

definition get_state_file :: "string \<Rightarrow> string" where
  "get_state_file user_id = ''state_'' @ user_id @ ''.json''"

text \<open>The dictionary literals of \<open>load_user_state\<close>, and a state as \<open>json.dumps\<close> sees it.\<close>

definition default_state :: "env \<Rightarrow> user_state" where
  "default_state e = \<lparr>plus_points = PNum 0, month = PStr (get_current_month e)\<rparr>"

definition state_dict :: "user_state \<Rightarrow> pyval" where
  "state_dict st = PDict [(''plus_points'', plus_points st), (''month'', month st)]"

definition set_state :: "string \<Rightarrow> user_state \<Rightarrow> world \<Rightarrow> world" where
  "set_state user_id st w = w\<lparr>user_states := (user_states w)(user_id \<mapsto> st)\<rparr>"

subsection \<open>Loading and saving\<close>

text \<open>The body of the \<open>try\<close> of \<open>load_user_state\<close>, and the function with its handler.\<close>

definition load_try :: "env \<Rightarrow> string \<Rightarrow> world \<Rightarrow> exn + world" where
  "load_try e user_id w =
     (if \<not> fetch_ok e then Inl StorageError
      else case bucket w (get_state_file user_id) of
        None \<Rightarrow> Inr (set_state user_id (default_state e) w)
      | Some content \<Rightarrow>
          (case json_loads e content of
            None \<Rightarrow> Inl JSONDecodeError
          | Some data \<Rightarrow>
              (case py_get data ''plus_points'' (PNum 0) of
                Inl x \<Rightarrow> Inl x
              | Inr p \<Rightarrow>
                  (case py_get data ''month'' (PStr (get_current_month e)) of
                    Inl x \<Rightarrow> Inl x
                  | Inr m \<Rightarrow> Inr (set_state user_id \<lparr>plus_points = p, month = m\<rparr> w)))))"

definition load_user_state :: "env \<Rightarrow> string \<Rightarrow> world \<Rightarrow> world" where
  "load_user_state e user_id w =
     (case load_try e user_id w of
        Inr w' \<Rightarrow> w'
      | Inl x \<Rightarrow> set_state user_id (default_state e) w)"

definition save_try :: "env \<Rightarrow> string \<Rightarrow> world \<Rightarrow> exn + world" where
  "save_try e user_id w =
     (if \<not> store_ok e then Inl StorageError
      else case user_states w user_id of
        None \<Rightarrow> Inl KeyError
      | Some st \<Rightarrow>
          Inr (w\<lparr>bucket := (bucket w)(get_state_file user_id \<mapsto> json_dumps e (state_dict st))\<rparr>))"

definition save_user_state :: "env \<Rightarrow> string \<Rightarrow> world \<Rightarrow> world" where
  "save_user_state e user_id w =
     (case save_try e user_id w of Inr w' \<Rightarrow> w' | Inl x \<Rightarrow> w)"

text \<open>
  The two lines \<open>if user_id not in user_states: load_user_state(user_id)\<close>, which open
  \<open>get_points\<close>, \<open>set_points\<close> and the notification branch of \<open>handle_webhook\<close>.
\<close>

definition ensure_loaded :: "env \<Rightarrow> string \<Rightarrow> world \<Rightarrow> world" where
  "ensure_loaded e user_id w =
     (if user_states w user_id = None then load_user_state e user_id w else w)"

subsection \<open>Requests and responses\<close>

record request =
  headers :: "string \<rightharpoonup> string"
  body :: string

datatype error =
    HTTPException nat string
  | Uncaught exn
  | NonStringUserId

datatype response =
    JSONResponse pyval
  | UserPoints string user_state
  | AllPoints "string \<rightharpoonup> user_state"
  | PointsUpdated string int
  | Added rat string
  | Unhandled

text \<open>
  \<open>HTTPException s d\<close> is the response with status \<open>s\<close>; \<open>Uncaught x\<close> is an exception
  that leaves the handler (the framework answers 500). The responses are
  \<open>JSONResponse(content=c)\<close>, \<open>{user_id: user_states[user_id]}\<close>, \<open>user_states\<close>,
  \<open>{"message": "Points updated for u", "plus_points": value}\<close>,
  \<open>{"message": "Added a points to u"}\<close> and \<open>{"message": "Unhandled"}\<close>.
  \<open>NonStringUserId\<close> marks a notification whose \<open>broadcaster_user_id\<close> is a number or
  \<open>true\<close>: such ids are outside the string-keyed state of this model.
\<close>

definition is_ascii :: "string \<Rightarrow> bool" where
  "is_ascii s = list_all (\<lambda>c. (of_char c :: nat) < 128) s"

text \<open>\<open>hmac.compare_digest\<close> on two \<open>str\<close>: a \<open>TypeError\<close> unless both are ASCII.\<close>

definition compare_digest :: "string \<Rightarrow> string \<Rightarrow> exn + bool" where
  "compare_digest a b = (if is_ascii a \<and> is_ascii b then Inr (a = b) else Inl TypeError)"

definition verify_signature :: "env \<Rightarrow> request \<Rightarrow> string \<Rightarrow> bool" where
  "verify_signature e request body' =
     (if EVENTSUB_SECRET e = [] then True
      else case headers request ''Twitch-Eventsub-Message-Id'' of
        None \<Rightarrow> False
      | Some message_id \<Rightarrow>
          (case headers request ''Twitch-Eventsub-Message-Timestamp'' of
            None \<Rightarrow> False
          | Some timestamp \<Rightarrow>
              (case utf8_decode e body' of
                None \<Rightarrow> False
              | Some decoded \<Rightarrow>
                  (let message = message_id @ timestamp @ decoded;
                       signature = hmac_sha256_hex e (EVENTSUB_SECRET e) message;
                       expected = ''sha256='' @ signature
                   in case headers request ''Twitch-Eventsub-Message-Signature'' of
                        None \<Rightarrow> False
                      | Some given \<Rightarrow>
                          (case compare_digest given expected of
                            Inl x \<Rightarrow> False
                          | Inr r \<Rightarrow> r)))))"

subsection \<open>The handlers\<close>

definition get_points :: "env \<Rightarrow> string option \<Rightarrow> world \<Rightarrow> (error + response) \<times> world" where
  "get_points e user_id w =
     (case user_id of
        None \<Rightarrow> (Inr (AllPoints (user_states w)), w)
      | Some u \<Rightarrow>
          if u = [] then (Inr (AllPoints (user_states w)), w)
          else
            (let w1 = ensure_loaded e u w
             in case user_states w1 u of
                  None \<Rightarrow> (Inl (Uncaught KeyError), w1)
                | Some st \<Rightarrow> (Inr (UserPoints u st), w1)))"

definition set_points :: "env \<Rightarrow> string \<Rightarrow> int \<Rightarrow> world \<Rightarrow> (error + response) \<times> world" where
  "set_points e user_id v w =
     (let w1 = ensure_loaded e user_id w
      in case user_states w1 user_id of
           None \<Rightarrow> (Inl (Uncaught KeyError), w1)
         | Some st \<Rightarrow>
             (let st1 = st\<lparr>plus_points := PNum (of_int v)\<rparr>;
                  st2 = st1\<lparr>month := PStr (get_current_month e)\<rparr>;
                  w2 = set_state user_id st2 w1
              in (Inr (PointsUpdated user_id v), save_user_state e user_id w2)))"

text \<open>Line 118 of the module: the amount of a tier.\<close>

definition tier_amount :: "pyval \<Rightarrow> rat" where
  "tier_amount tier =
     (if tier = PStr ''1000'' then 1
      else if tier = PStr ''2000'' then 2
      else if tier = PStr ''3000'' then 5 / 2
      else 0)"

text \<open>Lines 112 to 115: the month check of the notification branch.\<close>

definition rollover :: "env \<Rightarrow> user_state \<Rightarrow> user_state" where
  "rollover e st =
     (let now = get_current_month e
      in if PStr now \<noteq> month st then \<lparr>plus_points = PNum 0, month = PStr now\<rparr> else st)"

text \<open>
  Lines 109 to 121: the notification branch from the load on, for a string user id and
  the event dictionary.
\<close>

definition notification :: "env \<Rightarrow> string \<Rightarrow> (string \<times> pyval) list \<Rightarrow> world \<Rightarrow> (error + response) \<times> world" where
  "notification e user_id event w =
     (let w1 = ensure_loaded e user_id w
      in case user_states w1 user_id of
           None \<Rightarrow> (Inl (Uncaught KeyError), w1)
         | Some st \<Rightarrow>
             (let st2 = rollover e st;
                  w2 = set_state user_id st2 w1;
                  tier = dict_get event ''tier'' PNone;
                  amount = tier_amount tier
              in case py_add (plus_points st2) amount of
                   Inl x \<Rightarrow> (Inl (Uncaught x), w2)
                 | Inr new_total \<Rightarrow>
                     (let w3 = set_state user_id (st2\<lparr>plus_points := new_total\<rparr>) w2
                      in (Inr (Added amount user_id), save_user_state e user_id w3))))"

text \<open>
  The value of \<open>broadcaster_user_id\<close> as a key of \<open>user_states\<close>: a string is the user id;
  a list or an object cannot be hashed, so \<open>user_id not in user_states\<close> raises; a number
  or \<open>true\<close> would be a key that is no string, which this model leaves out.
\<close>

fun user_key :: "pyval \<Rightarrow> error + string" where
  "user_key (PStr u) = Inr u"
| "user_key (PList xs) = Inl (Uncaught TypeError)"
| "user_key (PDict d) = Inl (Uncaught TypeError)"
| "user_key _ = Inl NonStringUserId"

text \<open>
  In the notification branch \<open>event.get\<close> raises unless the event is a dictionary, so the
  branch goes on with the items \<open>ev\<close> of that dictionary.
\<close>

definition handle_webhook :: "env \<Rightarrow> request \<Rightarrow> world \<Rightarrow> (error + response) \<times> world" where
  "handle_webhook e request w =
     (if \<not> verify_signature e request (body request)
      then (Inl (HTTPException 403 ''Invalid signature''), w)
      else case json_loads e (body request) of
        None \<Rightarrow> (Inl (Uncaught JSONDecodeError), w)
      | Some payload \<Rightarrow>
          (let msg_type = headers request ''Twitch-Eventsub-Message-Type''
           in if msg_type = Some ''webhook_callback_verification'' then
                (case py_item payload ''challenge'' of
                   Inl x \<Rightarrow> (Inl (Uncaught x), w)
                 | Inr c \<Rightarrow> (Inr (JSONResponse c), w))
              else if msg_type = Some ''notification'' then
                (case py_get payload ''event'' (PDict []) of
                   Inl x \<Rightarrow> (Inl (Uncaught x), w)
                 | Inr (PDict ev) \<Rightarrow>
                     (let user_id = dict_get ev ''broadcaster_user_id'' PNone
                      in if \<not> truthy user_id
                         then (Inl (HTTPException 400 ''Missing broadcaster_user_id''), w)
                         else
                           (case user_key user_id of
                              Inl err \<Rightarrow> (Inl err, w)
                            | Inr u \<Rightarrow> notification e u ev w))
                 | Inr _ \<Rightarrow> (Inl (Uncaught AttributeError), w))
              else (Inr Unhandled, w)))"

subsection \<open>The body of a JSON response\<close>

text \<open>
  \<open>JSONResponse(content=c)\<close> sends \<open>json.dumps(c, ensure_ascii=False, allow_nan=False,
  indent=None, separators=(",", ":"))\<close> as its body. \<open>json_escape\<close> is the escape table of
  \<open>json.dumps\<close> for one character when \<open>ensure_ascii\<close> is off: backslash, the double
  quote and the control characters below 0x20 are escaped, every other byte is kept.
  The text of a number is left to the parameter \<open>number_text\<close>.
\<close>

definition hex_digit :: "nat \<Rightarrow> char" where
  "hex_digit n = (''0123456789abcdef'' ! (n mod 16))"

definition json_escape :: "char \<Rightarrow> string" where
  "json_escape c =
     (if c = CHR 0x5C then [CHR 0x5C, CHR 0x5C]
      else if c = CHR 0x22 then [CHR 0x5C, CHR 0x22]
      else if c = CHR 0x08 then [CHR 0x5C, CHR ''b'']
      else if c = CHR 0x0C then [CHR 0x5C, CHR ''f'']
      else if c = CHR 0x0A then [CHR 0x5C, CHR ''n'']
      else if c = CHR 0x0D then [CHR 0x5C, CHR ''r'']
      else if c = CHR 0x09 then [CHR 0x5C, CHR ''t'']
      else if (of_char c :: nat) < 32
        then [CHR 0x5C, CHR ''u'', CHR ''0'', CHR ''0'',
              hex_digit (of_char c div 16), hex_digit (of_char c mod 16)]
      else [c])"

definition json_string :: "string \<Rightarrow> string" where
  "json_string s = [CHR 0x22] @ concat (map json_escape s) @ [CHR 0x22]"

fun join :: "string \<Rightarrow> string list \<Rightarrow> string" where
  "join sep [] = []"
| "join sep [x] = x"
| "join sep (x # y # ys) = x @ sep @ join sep (y # ys)"

fun render :: "(rat \<Rightarrow> string) \<Rightarrow> pyval \<Rightarrow> string" where
  "render number_text PNone = ''null''"
| "render number_text (PBool b) = (if b then ''true'' else ''false'')"
| "render number_text (PNum r) = number_text r"
| "render number_text (PStr s) = json_string s"
| "render number_text (PList xs) = ''['' @ join '','' (map (render number_text) xs) @ '']''"
| "render number_text (PDict kvs) =
     ''{'' @ join '','' (map (\<lambda>(k, v). json_string k @ '':'' @ render number_text v) kvs) @ ''}''"

subsection \<open>Notifications that reach the accumulator\<close>

text \<open>
  The conditions under which \<open>handle_webhook\<close> reaches line 109 with the string user id
  \<open>u\<close> and the event dictionary \<open>ev\<close>: the signature check passes, the body parses, the
  message type is \<open>notification\<close>, the payload's event is \<open>ev\<close>, and its
  \<open>broadcaster_user_id\<close> is the non-empty string \<open>u\<close>.
\<close>

definition notification_for :: "env \<Rightarrow> request \<Rightarrow> string \<Rightarrow> (string \<times> pyval) list \<Rightarrow> bool" where
  "notification_for e request u ev =
     (verify_signature e request (body request) \<and>
      headers request ''Twitch-Eventsub-Message-Type'' = Some ''notification'' \<and>
      (case json_loads e (body request) of
         None \<Rightarrow> False
       | Some payload \<Rightarrow>
           py_get payload ''event'' (PDict []) = Inr (PDict ev) \<and>
           dict_get ev ''broadcaster_user_id'' PNone = PStr u \<and> u \<noteq> []))"

subsection \<open>Example inputs\<close>

text \<open>
  A concrete environment for the examples below: no secret, the clock in June 2024, a
  storage service that answers, and a \<open>json_loads\<close> that knows the JSON texts of three
  documents (a tier-2000 notification for user \<open>u1\<close>, a handshake with the challenge
  \<open>abc\<close>, and a stored record of 7 points from May 2024).
\<close>

definition example_number_text :: "rat \<Rightarrow> string" where
  "example_number_text r = (if r = 7 then ''7'' else if r = 2 then ''2'' else ''0'')"

definition sub_event :: "(string \<times> pyval) list" where
  "sub_event = [(''broadcaster_user_id'', PStr ''u1''), (''tier'', PStr ''2000'')]"

definition sub_payload :: pyval where
  "sub_payload = PDict [(''event'', PDict sub_event)]"

definition challenge_payload :: pyval where
  "challenge_payload = PDict [(''challenge'', PStr ''abc'')]"

definition may_record :: pyval where
  "may_record = PDict [(''plus_points'', PNum 7), (''month'', PStr ''2024-05'')]"

definition example_loads :: "string \<Rightarrow> pyval option" where
  "example_loads s =
     (if s = render example_number_text sub_payload then Some sub_payload
      else if s = render example_number_text challenge_payload then Some challenge_payload
      else if s = render example_number_text may_record then Some may_record
      else None)"

definition env0 :: env where
  "env0 = \<lparr>EVENTSUB_SECRET = [], utc_month = ''2024-06'', fetch_ok = True, store_ok = True,
     hmac_sha256_hex = (\<lambda>k m. ''0f''), utf8_decode = Some, json_loads = example_loads,
     json_dumps = render example_number_text\<rparr>"

definition sub_request :: request where
  "sub_request = \<lparr>headers = [''Twitch-Eventsub-Message-Type'' \<mapsto> ''notification''],
     body = render example_number_text sub_payload\<rparr>"

definition challenge_request :: request where
  "challenge_request =
     \<lparr>headers = [''Twitch-Eventsub-Message-Type'' \<mapsto> ''webhook_callback_verification''],
      body = render example_number_text challenge_payload\<rparr>"

definition may_state :: user_state where
  "may_state = \<lparr>plus_points = PNum 7, month = PStr ''2024-05''\<rparr>"

definition w_empty :: world where
  "w_empty = \<lparr>user_states = Map.empty, bucket = Map.empty\<rparr>"

definition w_may :: world where
  "w_may = \<lparr>user_states = [''u1'' \<mapsto> may_state], bucket = Map.empty\<rparr>"

definition w_stored :: world where
  "w_stored = \<lparr>user_states = Map.empty,
     bucket = [get_state_file ''u1'' \<mapsto> render example_number_text may_record]\<rparr>"

text \<open>
  The same environment with a secret configured, and a notification that carries the
  three signature headers with a signature that is not the expected one.
\<close>

definition env_secret :: env where
  "env_secret = env0\<lparr>EVENTSUB_SECRET := ''s3cret''\<rparr>"

definition forged_request :: request where
  "forged_request =
     \<lparr>headers = [''Twitch-Eventsub-Message-Type'' \<mapsto> ''notification'',
                  ''Twitch-Eventsub-Message-Id'' \<mapsto> ''id1'',
                  ''Twitch-Eventsub-Message-Timestamp'' \<mapsto> ''t1'',
                  ''Twitch-Eventsub-Message-Signature'' \<mapsto> ''sha256=00''],
      body = render example_number_text sub_payload\<rparr>"

subsection \<open>Non-negative totals\<close>

text \<open>A record whose \<open>plus_points\<close> is a number that is not negative.\<close>

definition nonneg_points :: "user_state \<Rightarrow> bool" where
  "nonneg_points st = (case plus_points st of PNum r \<Rightarrow> 0 \<le> r | _ \<Rightarrow> False)"

section \<open>Basic facts\<close>

lemmas example_defs = example_number_text_def sub_event_def sub_payload_def
  challenge_payload_def may_record_def example_loads_def env0_def sub_request_def
  challenge_request_def may_state_def w_empty_def w_may_def w_stored_def json_string_def
  json_escape_def

lemma tier_amount_nonneg: "0 \<le> tier_amount t"
  by (simp add: tier_amount_def)

lemma user_states_set_state [simp]:
  "user_states (set_state u st w) = (user_states w)(u \<mapsto> st)"
  by (simp add: set_state_def)

lemma bucket_set_state [simp]: "bucket (set_state u st w) = bucket w"
  by (simp add: set_state_def)

lemma get_state_file_inj [simp]: "get_state_file u = get_state_file u' \<longleftrightarrow> u = u'"
  by (simp add: get_state_file_def)

lemma load_user_state_is_set: "\<exists>st. load_user_state e u w = set_state u st w"
  by (auto simp: load_user_state_def load_try_def split: sum.splits option.splits)

lemma user_states_load_other [simp]:
  "u' \<noteq> u \<Longrightarrow> user_states (load_user_state e u w) u' = user_states w u'"
  using load_user_state_is_set [of e u w] by auto

lemma user_states_load_self: "\<exists>st. user_states (load_user_state e u w) u = Some st"
  using load_user_state_is_set [of e u w] by auto

lemma bucket_load [simp]: "bucket (load_user_state e u w) = bucket w"
  using load_user_state_is_set [of e u w] by auto

lemma user_states_save [simp]: "user_states (save_user_state e u w) = user_states w"
  by (simp add: save_user_state_def save_try_def split: option.splits)

lemma bucket_save_other [simp]:
  "f \<noteq> get_state_file u \<Longrightarrow> bucket (save_user_state e u w) f = bucket w f"
  by (simp add: save_user_state_def save_try_def split: option.splits)

lemma bucket_save_self:
  "store_ok e \<Longrightarrow> user_states w u = Some st \<Longrightarrow>
   bucket (save_user_state e u w) (get_state_file u) = Some (json_dumps e (state_dict st))"
  by (simp add: save_user_state_def save_try_def)

lemma bucket_save_failed: "\<not> store_ok e \<Longrightarrow> save_user_state e u w = w"
  by (simp add: save_user_state_def save_try_def)

lemma user_states_ensure_other [simp]:
  "u' \<noteq> u \<Longrightarrow> user_states (ensure_loaded e u w) u' = user_states w u'"
  by (simp add: ensure_loaded_def)

lemma user_states_ensure_self: "\<exists>st. user_states (ensure_loaded e u w) u = Some st"
  using user_states_load_self [of e u w] by (auto simp: ensure_loaded_def)

lemma bucket_ensure [simp]: "bucket (ensure_loaded e u w) = bucket w"
  by (simp add: ensure_loaded_def)

lemma ensure_loaded_cached: "user_states w u = Some st \<Longrightarrow> ensure_loaded e u w = w"
  by (simp add: ensure_loaded_def)

lemma handle_webhook_notification:
  "notification_for e request u ev \<Longrightarrow> handle_webhook e request w = notification e u ev w"
  by (auto simp: notification_for_def handle_webhook_def Let_def split: option.splits sum.splits)

lemma month_rollover [simp]: "month (rollover e st) = PStr (utc_month e)"
  by (auto simp: rollover_def Let_def get_current_month_def)

lemma rollover_stale:
  "month st \<noteq> PStr (utc_month e) \<Longrightarrow>
   rollover e st = \<lparr>plus_points = PNum 0, month = PStr (utc_month e)\<rparr>"
  by (auto simp: rollover_def Let_def get_current_month_def)

lemma rollover_current: "month st = PStr (utc_month e) \<Longrightarrow> rollover e st = st"
  by (auto simp: rollover_def Let_def get_current_month_def)


lemma notification_result:
  assumes "user_states (ensure_loaded e u w) u = Some st"
    and "py_add (plus_points (rollover e st)) (tier_amount (dict_get ev ''tier'' PNone)) = Inr p"
  shows "notification e u ev w =
    (Inr (Added (tier_amount (dict_get ev ''tier'' PNone)) u),
     save_user_state e u
       (set_state u (rollover e st\<lparr>plus_points := p\<rparr>) (ensure_loaded e u w)))"
  using assms by (simp add: notification_def Let_def set_state_def)



lemma set_points_result:
  assumes "user_states (ensure_loaded e u w) u = Some st"
  shows "set_points e u v w =
    (Inr (PointsUpdated u v),
     save_user_state e u
       (set_state u \<lparr>plus_points = PNum (of_int v), month = PStr (utc_month e)\<rparr>
          (ensure_loaded e u w)))"
  using assms by (cases st) (simp add: set_points_def Let_def get_current_month_def)

section \<open>The claims\<close>

subsection \<open>C1: rollover before the increment\<close>

text \<open>
  C1. When a notification for user \<open>u\<close> is processed and the record of \<open>u\<close> (as cached, or
  as just loaded) carries a month other than the current one, the points are reset to 0
  and the month is set to the current one before the amount is added: the record that
  results holds the amount of this notification alone, under the current month.
\<close>

theorem C1_rollover_before_increment:
  assumes "notification_for e request u ev"
    and "user_states (ensure_loaded e u w) u = Some st"
    and "month st \<noteq> PStr (get_current_month e)"
  shows "fst (handle_webhook e request w) = Inr (Added (tier_amount (dict_get ev ''tier'' PNone)) u) \<and>
    user_states (snd (handle_webhook e request w)) u =
      Some \<lparr>plus_points = PNum (tier_amount (dict_get ev ''tier'' PNone)),
            month = PStr (get_current_month e)\<rparr>"
proof -
  let ?a = "tier_amount (dict_get ev ''tier'' PNone)"
  have stale: "rollover e st = \<lparr>plus_points = PNum 0, month = PStr (utc_month e)\<rparr>"
    using assms(3) by (simp add: rollover_stale get_current_month_def)
  have "py_add (plus_points (rollover e st)) ?a = Inr (PNum ?a)"
    by (simp add: stale)
  from notification_result [OF assms(2) this]
  have "notification e u ev w =
      (Inr (Added ?a u),
       save_user_state e u (set_state u (rollover e st\<lparr>plus_points := PNum ?a\<rparr>) (ensure_loaded e u w)))" .
  then show ?thesis
    by (simp add: handle_webhook_notification [OF assms(1)] stale get_current_month_def)
qed

text \<open>
  The record of 7 points under 2024-05, a tier-2000 notification in 2024-06: the total
  is 2.
\<close>

theorem C1_witness:
  "fst (handle_webhook env0 sub_request w_may) = Inr (Added 2 ''u1'') \<and>
   user_states (snd (handle_webhook env0 sub_request w_may)) ''u1'' =
     Some \<lparr>plus_points = PNum 2, month = PStr ''2024-06''\<rparr>"
proof -
  have n: "notification_for env0 sub_request ''u1'' sub_event"
    by (simp add: notification_for_def verify_signature_def example_defs dict_get_def)
  have l: "user_states (ensure_loaded env0 ''u1'' w_may) ''u1'' = Some may_state"
    by (simp add: ensure_loaded_def w_may_def)
  have m: "month may_state \<noteq> PStr (get_current_month env0)"
    by (simp add: may_state_def get_current_month_def env0_def)
  have t: "tier_amount (dict_get sub_event ''tier'' PNone) = 2"
    by (simp add: tier_amount_def dict_get_def sub_event_def)
  show ?thesis
    using C1_rollover_before_increment [OF n l m]
    by (simp add: t get_current_month_def env0_def)
qed

subsection \<open>C2: the amount of a tier\<close>




subsection \<open>C3: a stale total stays visible to reads\<close>




subsection \<open>C4: set-points overwrites and re-anchors\<close>

text \<open>
  C4. \<open>set_points\<close> for user \<open>u\<close> and integer \<open>v\<close> leaves the record of \<open>u\<close> with the points
  \<open>v\<close> and the current month, whatever the record held before; it writes that record to
  the file of \<open>u\<close> when the storage call goes through; and a \<open>get_points\<close> for \<open>u\<close> that
  follows returns exactly that record (within the snapshot of all users when \<open>u\<close> is the
  empty string, which \<open>get_points\<close> treats as no user id).
\<close>

theorem C4_set_points_then_get:
  fixes v :: int
  assumes "st' = \<lparr>plus_points = PNum (of_int v), month = PStr (get_current_month e)\<rparr>"
    and "w' = snd (set_points e u v w)"
  shows "fst (set_points e u v w) = Inr (PointsUpdated u v) \<and>
    user_states w' u = Some st' \<and>
    (store_ok e \<longrightarrow> bucket w' (get_state_file u) = Some (json_dumps e (state_dict st'))) \<and>
    (u \<noteq> [] \<longrightarrow> get_points e' (Some u) w' = (Inr (UserPoints u st'), w')) \<and>
    (u = [] \<longrightarrow> get_points e' (Some u) w' = (Inr (AllPoints (user_states w')), w'))"
proof -
  obtain st where st: "user_states (ensure_loaded e u w) u = Some st"
    using user_states_ensure_self by blast
  let ?w2 = "set_state u st' (ensure_loaded e u w)"
  have res: "set_points e u v w = (Inr (PointsUpdated u v), save_user_state e u ?w2)"
    using set_points_result [OF st] by (simp add: assms(1) get_current_month_def)
  have w': "w' = save_user_state e u ?w2"
    by (simp add: assms(2) res)
  have cached: "user_states w' u = Some st'"
    by (simp add: w')
  have saved: "store_ok e \<longrightarrow> bucket w' (get_state_file u) = Some (json_dumps e (state_dict st'))"
    by (simp add: w' bucket_save_self)
  have readback: "u \<noteq> [] \<longrightarrow> get_points e' (Some u) w' = (Inr (UserPoints u st'), w')"
    using cached by (simp add: get_points_def ensure_loaded_def)
  have snapshot: "u = [] \<longrightarrow> get_points e' (Some u) w' = (Inr (AllPoints (user_states w')), w')"
    by (simp add: get_points_def)
  show ?thesis
    using res cached saved readback snapshot by simp
qed

theorem C4_witness:
  "fst (set_points env0 ''u1'' 10 w_may) = Inr (PointsUpdated ''u1'' 10) \<and>
   fst (get_points env0 (Some ''u1'') (snd (set_points env0 ''u1'' 10 w_may))) =
     Inr (UserPoints ''u1'' \<lparr>plus_points = PNum 10, month = PStr ''2024-06''\<rparr>) \<and>
   fst (get_points env0 (Some []) (snd (set_points env0 [] 10 w_may))) =
     Inr (AllPoints (user_states (snd (set_points env0 [] 10 w_may)))) \<and>
   bucket (snd (set_points env0 ''u1'' 10 w_may)) (get_state_file ''u1'') =
     Some (json_dumps env0
       (state_dict \<lparr>plus_points = PNum 10, month = PStr ''2024-06''\<rparr>))"
proof -
  have m: "get_current_month env0 = ''2024-06''" and s: "store_ok env0"
    by (simp_all add: get_current_month_def env0_def)
  show ?thesis
    using C4_set_points_then_get [OF refl refl, of env0 "''u1''" 10 w_may env0]
      C4_set_points_then_get [OF refl refl, of env0 "[]" 10 w_may env0] s
    by (simp add: m)
qed

subsection \<open>C5: loading on a miss is idempotent\<close>

text \<open>
  C5. Performing the load-on-miss step twice in succession (even under a different
  clock or storage answer for the second call) leaves the same state as performing it
  once, and the step changes nothing for a user who is already in the cache.
\<close>

theorem C5_ensure_loaded_idempotent:
  "ensure_loaded e' u (ensure_loaded e u w) = ensure_loaded e u w \<and>
   (user_states w u \<noteq> None \<longrightarrow> ensure_loaded e u w = w)"
proof -
  obtain st where "user_states (ensure_loaded e u w) u = Some st"
    using user_states_ensure_self by blast
  then have "ensure_loaded e' u (ensure_loaded e u w) = ensure_loaded e u w"
    by (rule ensure_loaded_cached)
  moreover have "user_states w u \<noteq> None \<longrightarrow> ensure_loaded e u w = w"
    by (simp add: ensure_loaded_def)
  ultimately show ?thesis by simp
qed

theorem C5_witness:
  "ensure_loaded env0 ''u1'' (ensure_loaded env0 ''u1'' w_stored) = ensure_loaded env0 ''u1'' w_stored \<and>
   user_states (ensure_loaded env0 ''u1'' w_stored) ''u1'' = Some may_state \<and>
   ensure_loaded env0 ''u1'' w_may = w_may"
proof -
  have c: "user_states w_may ''u1'' \<noteq> None"
    by (simp add: w_may_def)
  have l: "user_states (ensure_loaded env0 ''u1'' w_stored) ''u1'' = Some may_state"
    by (simp add: ensure_loaded_def load_user_state_def load_try_def example_defs
        get_current_month_def dict_get_def get_state_file_def)
  show ?thesis
    using C5_ensure_loaded_idempotent [of env0 "''u1''" env0 w_stored]
      C5_ensure_loaded_idempotent [of env0 "''u1''" env0 w_may] c l
    by simp
qed

subsection \<open>C6: loading never fails outward\<close>



subsection \<open>C7: requests with a bad signature change nothing\<close>

lemma verify_signature_rejects:
  assumes "EVENTSUB_SECRET e \<noteq> []"
    and "headers request ''Twitch-Eventsub-Message-Signature'' = None \<or>
      (\<forall>mid ts decoded.
         headers request ''Twitch-Eventsub-Message-Id'' = Some mid \<and>
         headers request ''Twitch-Eventsub-Message-Timestamp'' = Some ts \<and>
         utf8_decode e b = Some decoded \<longrightarrow>
         headers request ''Twitch-Eventsub-Message-Signature'' \<noteq>
           Some (''sha256='' @ hmac_sha256_hex e (EVENTSUB_SECRET e) (mid @ ts @ decoded)))"
  shows "\<not> verify_signature e request b"
  using assms
  by (auto simp: verify_signature_def compare_digest_def Let_def split: option.splits)

text \<open>
  C7. With a secret configured, a request to \<open>handle_webhook\<close> whose signature header is
  missing, or differs from \<open>sha256=\<close> followed by the HMAC of message id, timestamp and
  body, is answered with status 403 (a client error) and the cache and the bucket are
  left as they were. With an empty secret \<open>verify_signature\<close> accepts every request and
  every body.
\<close>

theorem C7_bad_signature_rejected:
  "(EVENTSUB_SECRET e \<noteq> [] \<and>
    (headers request ''Twitch-Eventsub-Message-Signature'' = None \<or>
     (\<forall>mid ts decoded.
        headers request ''Twitch-Eventsub-Message-Id'' = Some mid \<and>
        headers request ''Twitch-Eventsub-Message-Timestamp'' = Some ts \<and>
        utf8_decode e (body request) = Some decoded \<longrightarrow>
        headers request ''Twitch-Eventsub-Message-Signature'' \<noteq>
          Some (''sha256='' @ hmac_sha256_hex e (EVENTSUB_SECRET e) (mid @ ts @ decoded)))) \<longrightarrow>
    handle_webhook e request w = (Inl (HTTPException 403 ''Invalid signature''), w)) \<and>
   (EVENTSUB_SECRET e = [] \<longrightarrow> verify_signature e request b)"
proof -
  have open_door: "EVENTSUB_SECRET e = [] \<longrightarrow> verify_signature e request b"
    by (simp add: verify_signature_def)
  have rejected: "handle_webhook e request w = (Inl (HTTPException 403 ''Invalid signature''), w)"
    if "EVENTSUB_SECRET e \<noteq> []"
      and "headers request ''Twitch-Eventsub-Message-Signature'' = None \<or>
        (\<forall>mid ts decoded.
           headers request ''Twitch-Eventsub-Message-Id'' = Some mid \<and>
           headers request ''Twitch-Eventsub-Message-Timestamp'' = Some ts \<and>
           utf8_decode e (body request) = Some decoded \<longrightarrow>
           headers request ''Twitch-Eventsub-Message-Signature'' \<noteq>
             Some (''sha256='' @ hmac_sha256_hex e (EVENTSUB_SECRET e) (mid @ ts @ decoded)))"
  proof -
    have "\<not> verify_signature e request (body request)"
      using that by (rule verify_signature_rejects)
    then show ?thesis
      by (simp add: handle_webhook_def)
  qed
  show ?thesis
    using open_door rejected by blast
qed

theorem C7_witness:
  "handle_webhook env_secret sub_request w_may =
     (Inl (HTTPException 403 ''Invalid signature''), w_may) \<and>
   handle_webhook env_secret forged_request w_may =
     (Inl (HTTPException 403 ''Invalid signature''), w_may) \<and>
   verify_signature env0 forged_request (body forged_request)"
proof -
  have s: "EVENTSUB_SECRET env_secret \<noteq> []" and s0: "EVENTSUB_SECRET env0 = []"
    by (simp_all add: env_secret_def env0_def)
  have missing: "headers sub_request ''Twitch-Eventsub-Message-Signature'' = None"
    by (simp add: sub_request_def)
  have forged: "\<forall>mid ts decoded.
      headers forged_request ''Twitch-Eventsub-Message-Id'' = Some mid \<and>
      headers forged_request ''Twitch-Eventsub-Message-Timestamp'' = Some ts \<and>
      utf8_decode env_secret (body forged_request) = Some decoded \<longrightarrow>
      headers forged_request ''Twitch-Eventsub-Message-Signature'' \<noteq>
        Some (''sha256='' @
          hmac_sha256_hex env_secret (EVENTSUB_SECRET env_secret) (mid @ ts @ decoded))"
    by (simp add: forged_request_def env_secret_def env0_def)
  show ?thesis
    using C7_bad_signature_rejected [of env_secret sub_request w_may]
      C7_bad_signature_rejected [of env_secret forged_request w_may]
      C7_bad_signature_rejected [of env0 forged_request _ "body forged_request"]
      s s0 missing forged
    by blast
qed

subsection \<open>C8: the handshake answers with the challenge as JSON\<close>







subsection \<open>C9: the total is not negative unless it is set so\<close>

lemma nonneg_rollover: "nonneg_points st \<Longrightarrow> nonneg_points (rollover e st)"
  by (simp add: rollover_def nonneg_points_def Let_def)

text \<open>
  The claim says that the stored total of every user stays at or above 0 under every
  operation. \<open>set_points\<close> takes any integer and stores it: setting -5 leaves a total of
  -5.
\<close>

theorem C9_counterexample:
  "user_states (snd (set_points env0 ''u1'' (- 5) w_may)) ''u1'' =
     Some \<lparr>plus_points = PNum (- 5), month = PStr ''2024-06''\<rparr> \<and>
   \<not> (0::rat) \<le> - 5"
  by (simp add: set_points_def ensure_loaded_def save_user_state_def save_try_def Let_def
      get_current_month_def w_may_def may_state_def env0_def)

text \<open>
  C9, as amended. The default record has 0 points; the month check and the increment
  of a notification keep a total that is a non-negative number non-negative (every tier
  amount is at least 0); and after \<open>set_points\<close> with the value \<open>v\<close> the total is \<open>v\<close>,
  non-negative exactly when \<open>v\<close> is.
\<close>

theorem C9_nonneg_unless_set_negative:
  "nonneg_points (default_state e) \<and>
   (nonneg_points st \<longrightarrow> nonneg_points (rollover e st)) \<and>
   (notification_for e request u ev \<and> user_states (ensure_loaded e u w) u = Some st \<and>
    nonneg_points st \<longrightarrow>
      (\<exists>st'. user_states (snd (handle_webhook e request w)) u = Some st' \<and> nonneg_points st')) \<and>
   (\<exists>st'. user_states (snd (set_points e u v w)) u = Some st' \<and>
      plus_points st' = PNum (of_int v) \<and> (nonneg_points st' \<longleftrightarrow> 0 \<le> v))"
proof -
  have init: "nonneg_points (default_state e)"
    by (simp add: nonneg_points_def default_state_def)
  have roll: "nonneg_points st \<longrightarrow> nonneg_points (rollover e st)"
    by (simp add: nonneg_rollover)
  have incr: "\<exists>st'. user_states (snd (handle_webhook e request w)) u = Some st' \<and> nonneg_points st'"
    if n: "notification_for e request u ev"
      and st: "user_states (ensure_loaded e u w) u = Some st"
      and nn: "nonneg_points st"
  proof -
    let ?a = "tier_amount (dict_get ev ''tier'' PNone)"
    from nonneg_rollover [OF nn, of e]
    obtain r where r: "plus_points (rollover e st) = PNum r" and r0: "0 \<le> r"
      by (auto simp: nonneg_points_def split: pyval.splits)
    have "py_add (plus_points (rollover e st)) ?a = Inr (PNum (r + ?a))"
      by (simp add: r)
    from notification_result [OF st this]
    have "user_states (snd (handle_webhook e request w)) u =
        Some (rollover e st\<lparr>plus_points := PNum (r + ?a)\<rparr>)"
      by (simp add: handle_webhook_notification [OF n])
    moreover have "nonneg_points (rollover e st\<lparr>plus_points := PNum (r + ?a)\<rparr>)"
      using r0 tier_amount_nonneg [of "dict_get ev ''tier'' PNone"]
      by (simp add: nonneg_points_def)
    ultimately show ?thesis by blast
  qed
  have sets: "\<exists>st'. user_states (snd (set_points e u v w)) u = Some st' \<and>
      plus_points st' = PNum (of_int v) \<and> (nonneg_points st' \<longleftrightarrow> 0 \<le> v)"
  proof -
    obtain st0 where st0: "user_states (ensure_loaded e u w) u = Some st0"
      using user_states_ensure_self by blast
    show ?thesis
      by (simp add: set_points_result [OF st0] nonneg_points_def)
  qed
  show ?thesis
    using init roll incr sets by blast
qed

theorem C9_witness:
  "nonneg_points (rollover env0 may_state) \<and>
   (\<exists>st'. user_states (snd (handle_webhook env0 sub_request w_may)) ''u1'' = Some st' \<and>
      nonneg_points st') \<and>
   (\<exists>st'. user_states (snd (set_points env0 ''u1'' 10 w_may)) ''u1'' = Some st' \<and>
      plus_points st' = PNum 10 \<and> nonneg_points st')"
proof -
  have n: "notification_for env0 sub_request ''u1'' sub_event"
    by (simp add: notification_for_def verify_signature_def example_defs dict_get_def)
  have l: "user_states (ensure_loaded env0 ''u1'' w_may) ''u1'' = Some may_state"
    by (simp add: ensure_loaded_def w_may_def)
  have p: "nonneg_points may_state"
    by (simp add: nonneg_points_def may_state_def)
  show ?thesis
    using C9_nonneg_unless_set_negative
      [of env0 may_state sub_request "''u1''" sub_event w_may 10] n l p
    by simp
qed

subsection \<open>C10: an operation on one user leaves the others alone\<close>







end
